theory Spec2Isabelle
  imports Main "HOL-Library.AList"
begin

section \<open>tflearn data flow: \<^verbatim>\<open>tflearn/data_flow.py\<close>\<close>

text \<open>
  The module feeds batches of a dataset to a training loop through two queues: one thread
  generates batches of sample ids, worker threads slice the dataset by them, and the consumer
  pops the sliced batches with \<^verbatim>\<open>next\<close>. The embedding follows each method as a function on
  the object's state. A method returns the outcome of the call together with the state it
  leaves behind, since a Python exception does not undo the assignments made before it.
\<close>

subsection \<open>Outcomes\<close>

datatype py_error =
    TypeError | IndexError | KeyError | AxisError | ValueError
  | AssertionError | AttributeError | QueueEmpty

text \<open>
  \<open>Ok\<close>: the call returned; \<open>Raised\<close>: it raised; \<open>Blocked\<close>: it waits in a blocking
  \<^verbatim>\<open>put\<close>, \<^verbatim>\<open>get\<close> or \<^verbatim>\<open>join\<close> that no statement of its own thread can end.
\<close>

datatype 'a res = is_Ok: Ok (ok_value: 'a) | Raised py_error | Blocked

subsection \<open>\<^verbatim>\<open>DataFlowStatus\<close>\<close>

record DataFlowStatus =
  step :: int
  epoch :: int
  current_iter :: int
  batch_size :: int
  n_samples :: int

definition DataFlowStatus_init :: "int \<Rightarrow> int \<Rightarrow> DataFlowStatus" where
  "DataFlowStatus_init bs n =
     \<lparr>step = 0, epoch = 0, current_iter = 0, batch_size = bs, n_samples = n\<rparr>"

definition DataFlowStatus_update :: "DataFlowStatus \<Rightarrow> DataFlowStatus" where
  "DataFlowStatus_update st =
     (let st1 = st\<lparr>step := step st + 1\<rparr>;
          st2 = st1\<lparr>current_iter := min (step st1 * batch_size st1) (n_samples st1)\<rparr>
      in if current_iter st2 = n_samples st2
         then st2\<lparr>epoch := epoch st2 + 1, step := 0\<rparr>
         else st2)"

definition DataFlowStatus_reset :: "DataFlowStatus \<Rightarrow> DataFlowStatus" where
  "DataFlowStatus_reset st = st\<lparr>step := 0, epoch := 0\<rparr>"

subsection \<open>What the module takes from numpy and Python\<close>

text \<open>
  An array is its shape and its entries. The first axis is the list \<open>rows\<close>; \<open>tail_shape\<close>
  holds the remaining axes, and each row is the flattened (row-major) block of that shape, so a
  one-dimensional array has \<open>tail_shape = []\<close> and rows of one entry. Arrays are taken
  well-formed: every row has \<open>prod_list (tail_shape a)\<close> entries.
\<close>

datatype ndarray = NDArray (tail_shape: "nat list") (rows: "int list list")


definition np_len :: "ndarray \<Rightarrow> int" where
  "np_len a = int (length (rows a))"

text \<open>\<^verbatim>\<open>xs[i]\<close>: a negative index counts from the end, an index out of range raises.\<close>

definition py_index :: "'a list \<Rightarrow> int \<Rightarrow> py_error + 'a" where
  "py_index xs i =
     (let n = int (length xs)
      in if - n \<le> i \<and> i < n then Inr (xs ! nat (if i < 0 then i + n else i))
         else Inl IndexError)"

text \<open>\<^verbatim>\<open>xs[ind]\<close> for an array of integer indices \<open>ind\<close>: one row per index.\<close>

fun np_take :: "'a list \<Rightarrow> int list \<Rightarrow> py_error + 'a list" where
  "np_take xs [] = Inr []"
| "np_take xs (i # ind) =
     (case py_index xs i of
        Inl e \<Rightarrow> Inl e
      | Inr x \<Rightarrow> (case np_take xs ind of Inl e \<Rightarrow> Inl e | Inr ys \<Rightarrow> Inr (x # ys)))"

definition ndarray_take :: "ndarray \<Rightarrow> int list \<Rightarrow> py_error + ndarray" where
  "ndarray_take a ind =
     (case np_take (rows a) ind of
        Inl e \<Rightarrow> Inl e
      | Inr rs \<Rightarrow> Inr (NDArray (tail_shape a) rs))"

text \<open>The index of the first greatest entry.\<close>

fun argmax_from :: "int \<Rightarrow> nat \<Rightarrow> nat \<Rightarrow> int list \<Rightarrow> nat" where
  "argmax_from best at i [] = at"
| "argmax_from best at i (x # xs) =
     (if best < x then argmax_from x i (Suc i) xs else argmax_from best at (Suc i) xs)"

definition argmax_list :: "int list \<Rightarrow> nat" where
  "argmax_list xs = (case xs of [] \<Rightarrow> 0 | x # r \<Rightarrow> argmax_from x 0 1 r)"

text \<open>
  \<^verbatim>\<open>a.argmax(1)\<close>: the array needs a second axis, and that axis must not be empty; the
  result drops it.
\<close>

definition ndarray_argmax1 :: "ndarray \<Rightarrow> py_error + ndarray" where
  "ndarray_argmax1 a =
     (case tail_shape a of
        [] \<Rightarrow> Inl AxisError
      | k # rest \<Rightarrow>
          if k = 0 then Inl ValueError
          else (let m = prod_list rest
                in Inr (NDArray rest
                     (map (\<lambda>r. map (\<lambda>j. int (argmax_list (map (\<lambda>i. r ! (i * m + j)) [0..<k])))
                                    [0..<m])
                          (rows a)))))"

text \<open>\<^verbatim>\<open>np.arange(n)\<close>.\<close>

definition np_arange :: "int \<Rightarrow> int list" where
  "np_arange n = [0..n - 1]"

subsection \<open>\<^verbatim>\<open>utils\<close>\<close>

type_synonym key = string
type_synonym feed = "(key \<times> ndarray) list"

text \<open>
  Modelled from the spec: \<^verbatim>\<open>utils.get_dict_first_element\<close> is not among the sources. The
  constructor takes the row count of the dataset from it; it is the value of the first key in
  the dictionary's order, and \<^verbatim>\<open>None\<close> for an empty dictionary.
\<close>

definition get_dict_first_element :: "feed \<Rightarrow> ndarray option" where
  "get_dict_first_element d = (case d of [] \<Rightarrow> None | (k, v) # r \<Rightarrow> Some v)"

text \<open>
  Modelled from the spec: \<^verbatim>\<open>utils.make_batches\<close> is not among the sources. It is the
  contiguous partition of \<open>[0, n_samples)\<close> into ranges of \<open>batch_size\<close> positions, the last
  one possibly shorter, each batch a sequence of positions. The spec gives it for
  \<open>batch_size > 0\<close> only; any other size is refused here.
\<close>

definition make_batches_util :: "int \<Rightarrow> int \<Rightarrow> py_error + int list list" where
  "make_batches_util n bs =
     (if bs \<le> 0 then Inl ValueError
      else Inr (map (\<lambda>i. [i * bs .. min n ((i + 1) * bs) - 1]) [0 .. (n + bs - 1) div bs - 1]))"

text \<open>
  Modelled from the spec: \<^verbatim>\<open>utils.slice_array\<close> is not among the sources. It slices one
  dataset value by an index batch.
\<close>

definition slice_array :: "ndarray \<Rightarrow> int list \<Rightarrow> py_error + ndarray" where
  "slice_array x ind = ndarray_take x ind"

subsection \<open>The state of a \<^verbatim>\<open>FeedDictFlow\<close>\<close>

type_synonym transform = "ndarray \<Rightarrow> py_error + ndarray"

text \<open>What the consumer pops: a sliced feed dict, or \<^verbatim>\<open>False\<close> for "no more data".\<close>

datatype feed_item = FeedDict feed | NoMoreData

text \<open>
  The fields of the object, under the source's names (\<open>fd_batch_size\<close> and \<open>fd_n_samples\<close>
  are \<^verbatim>\<open>self.batch_size\<close> and \<^verbatim>\<open>self.n_samples\<close>, which the status record has too).
  A dictionary is the list of its items in iteration order. An entry of \<open>batch_ids_queue\<close> is
  \<open>Some ids\<close>, or \<open>None\<close> for the stop signal \<^verbatim>\<open>False\<close>. Both queues are created with
  \<^verbatim>\<open>queue.Queue(self.max_queue)\<close>.

  The collaborators the object holds or reaches are fields as well:
  \<^item> \<open>coord_should_stop\<close>: what \<^verbatim>\<open>self.coord.should_stop()\<close> answers;
  \<^item> \<open>threads\<close>: \<^verbatim>\<open>self.threads\<close>, the number of thread handles, \<open>None\<close> while the attribute
    does not exist; \<open>running\<close>: how many of these threads have not finished, which is what
    \<^verbatim>\<open>self.coord.join\<close> waits for; \<open>waiters\<close>: how many \<^verbatim>\<open>wait_for_threads\<close> threads have been
    launched and have not run yet;
  \<^item> \<open>rng\<close> and \<open>rng_draws\<close>: the permutation \<^verbatim>\<open>np.random.shuffle\<close> applies at its n-th call;
  \<^item> \<open>balanced_util\<close>: \<^verbatim>\<open>utils.make_balanced_batches\<close>, which is not among the sources and
    which the spec leaves open.
\<close>

record flow =
  coord_should_stop :: bool
  num_threads :: int
  max_queue :: int
  shuffle :: bool
  continuous :: bool
  dprep_dict :: "(key \<times> transform) list"
  daug_dict :: "(key \<times> transform) list"
  interrupted :: bool
  feed_dict :: feed
  fd_batch_size :: int
  fd_n_samples :: int
  balanced_classes :: bool
  batch_ids_queue :: "int list option list"
  feed_dict_queue :: "feed_item list"
  index_array :: "int list"
  batches :: "int list list"
  batch_index :: int
  data_status :: DataFlowStatus
  threads :: "nat option"
  running :: nat
  waiters :: nat
  rng :: "nat \<Rightarrow> int list \<Rightarrow> int list"
  rng_draws :: nat
  balanced_util :: "int \<Rightarrow> int \<Rightarrow> ndarray \<Rightarrow> py_error + int list list"

text \<open>Sequencing: the second statement runs only if the first returned.\<close>

definition then_do :: "'a res \<times> flow \<Rightarrow> ('a \<Rightarrow> flow \<Rightarrow> 'b res \<times> flow) \<Rightarrow> 'b res \<times> flow" where
  "then_do m f =
     (case m of
        (Ok x, s) \<Rightarrow> f x s
      | (Raised e, s) \<Rightarrow> (Raised e, s)
      | (Blocked, s) \<Rightarrow> (Blocked, s))"

text \<open>A pure computation that may raise, run in a state.\<close>

definition lift :: "py_error + 'a \<Rightarrow> flow \<Rightarrow> 'a res \<times> flow" where
  "lift r s = (case r of Inl e \<Rightarrow> (Raised e, s) | Inr x \<Rightarrow> (Ok x, s))"

subsection \<open>The queues\<close>

text \<open>\<^verbatim>\<open>queue.Queue(maxsize)\<close>: a size of zero or less is unbounded.\<close>

definition queue_full :: "int \<Rightarrow> 'a list \<Rightarrow> bool" where
  "queue_full maxsize q \<longleftrightarrow> 0 < maxsize \<and> maxsize \<le> int (length q)"

definition put_batch_ids :: "int list option \<Rightarrow> flow \<Rightarrow> unit res \<times> flow" where
  "put_batch_ids x s =
     (if queue_full (max_queue s) (batch_ids_queue s) then (Blocked, s)
      else (Ok (), s\<lparr>batch_ids_queue := batch_ids_queue s @ [x]\<rparr>))"

definition put_feed_dict :: "feed_item \<Rightarrow> flow \<Rightarrow> unit res \<times> flow" where
  "put_feed_dict x s =
     (if queue_full (max_queue s) (feed_dict_queue s) then (Blocked, s)
      else (Ok (), s\<lparr>feed_dict_queue := feed_dict_queue s @ [x]\<rparr>))"

definition get_batch_ids :: "flow \<Rightarrow> int list option res \<times> flow" where
  "get_batch_ids s =
     (case batch_ids_queue s of
        [] \<Rightarrow> (Blocked, s)
      | x # q \<Rightarrow> (Ok x, s\<lparr>batch_ids_queue := q\<rparr>))"

text \<open>
  \<^verbatim>\<open>get(timeout=timeout)\<close>: on an empty queue that nothing fills, the call never returns
  without a timeout, and raises \<^verbatim>\<open>queue.Empty\<close> with one.
\<close>

definition get_feed_dict :: "nat option \<Rightarrow> flow \<Rightarrow> feed_item res \<times> flow" where
  "get_feed_dict timeout s =
     (case feed_dict_queue s of
        [] \<Rightarrow> (case timeout of None \<Rightarrow> (Blocked, s) | Some t \<Rightarrow> (Raised QueueEmpty, s))
      | x # q \<Rightarrow> (Ok x, s\<lparr>feed_dict_queue := q\<rparr>))"

subsection \<open>Batches\<close>

definition make_batches :: "flow \<Rightarrow> py_error + int list list" where
  "make_batches s = make_batches_util (fd_n_samples s) (fd_batch_size s)"

text \<open>
  \<^verbatim>\<open>self.feed_dict.values()[1]\<close>: the second value of the dictionary, \<^verbatim>\<open>values()\<close> being
  the list of values that Python 2 returns (the module imports \<^verbatim>\<open>Queue\<close> first).
\<close>

definition second_value :: "feed \<Rightarrow> py_error + ndarray" where
  "second_value d = py_index (map snd d) 1"

definition make_balanced_batches :: "flow \<Rightarrow> py_error + int list list" where
  "make_balanced_batches s =
     (case second_value (feed_dict s) of
        Inl e \<Rightarrow> Inl e
      | Inr y \<Rightarrow>
          (case ndarray_argmax1 y of
             Inl e \<Rightarrow> Inl e
           | Inr labels \<Rightarrow>
               (case ndarray_take labels (index_array s) of
                  Inl e \<Rightarrow> Inl e
                | Inr labels' \<Rightarrow> balanced_util s (fd_n_samples s) (fd_batch_size s) labels')))"

definition shuffle_samples :: "flow \<Rightarrow> flow" where
  "shuffle_samples s =
     s\<lparr>index_array := rng s (rng_draws s) (index_array s), rng_draws := Suc (rng_draws s)\<rparr>"

definition reset_batches :: "flow \<Rightarrow> unit res \<times> flow" where
  "reset_batches s =
     then_do
       (if shuffle s
        then (let s1 = shuffle_samples s
              in then_do (lift (make_batches s1) s1) (\<lambda>b s2. (Ok (), s2\<lparr>batches := b\<rparr>)))
        else (Ok (), s))
       (\<lambda>_ s3. (Ok (), s3\<lparr>batch_index := - 1\<rparr>))"

definition reset_balanced_batches :: "flow \<Rightarrow> unit res \<times> flow" where
  "reset_balanced_batches s =
     then_do
       (if shuffle s
        then (let s1 = shuffle_samples s
              in then_do (lift (make_balanced_batches s1) s1) (\<lambda>b s2. (Ok (), s2\<lparr>batches := b\<rparr>)))
        else (Ok (), s))
       (\<lambda>_ s3. (Ok (), s3\<lparr>batch_index := - 1\<rparr>))"

subsection \<open>Lifecycle\<close>

function clear_feed_dict_queue :: "flow \<Rightarrow> unit res \<times> flow" where
  "clear_feed_dict_queue s =
     (if feed_dict_queue s \<noteq> [] then
        (case get_feed_dict None s of
           (Ok x, s') \<Rightarrow> clear_feed_dict_queue s'
         | (Raised e, s') \<Rightarrow> (Raised e, s')
         | (Blocked, s') \<Rightarrow> (Blocked, s'))
      else (Ok (), s))"
  by pat_completeness auto
termination
  by (relation "measure (\<lambda>s. length (feed_dict_queue s))")
     (auto simp: get_feed_dict_def split: list.splits)

function clear_batch_ids_queue :: "flow \<Rightarrow> unit res \<times> flow" where
  "clear_batch_ids_queue s =
     (if batch_ids_queue s \<noteq> [] then
        (case get_batch_ids s of
           (Ok x, s') \<Rightarrow> clear_batch_ids_queue s'
         | (Raised e, s') \<Rightarrow> (Raised e, s')
         | (Blocked, s') \<Rightarrow> (Blocked, s'))
      else (Ok (), s))"
  by pat_completeness auto
termination
  by (relation "measure (\<lambda>s. length (batch_ids_queue s))")
     (auto simp: get_batch_ids_def split: list.splits)

declare clear_feed_dict_queue.simps [simp del] clear_batch_ids_queue.simps [simp del]

definition clear_queues :: "flow \<Rightarrow> unit res \<times> flow" where
  "clear_queues s = then_do (clear_feed_dict_queue s) (\<lambda>_ s1. clear_batch_ids_queue s1)"

text \<open>
  \<^verbatim>\<open>start\<close> creates one thread for the batch ids and \<^verbatim>\<open>range(self.num_threads)\<close> workers,
  and starts them all; from then on \<^verbatim>\<open>self.threads\<close> is these handles.
\<close>

definition start :: "bool \<Rightarrow> flow \<Rightarrow> unit res \<times> flow" where
  "start reset_status s =
     then_do (clear_queues s) (\<lambda>_ s1.
       (let s2 = s1\<lparr>interrupted := False\<rparr>;
            s3 = (if reset_status
                  then s2\<lparr>data_status := DataFlowStatus_reset (data_status s2)\<rparr>
                  else s2)
        in (Ok (), s3\<lparr>threads := Some (1 + nat (num_threads s3)),
                      running := 1 + nat (num_threads s3)\<rparr>)))"

text \<open>\<^verbatim>\<open>for i in range(k): self.batch_ids_queue.put(False)\<close>.\<close>

fun stop_signals :: "nat \<Rightarrow> flow \<Rightarrow> unit res \<times> flow" where
  "stop_signals 0 s = (Ok (), s)"
| "stop_signals (Suc k) s =
     (case put_batch_ids None s of
        (Ok x, s') \<Rightarrow> stop_signals k s'
      | (Raised e, s') \<Rightarrow> (Raised e, s')
      | (Blocked, s') \<Rightarrow> (Blocked, s'))"

text \<open>\<^verbatim>\<open>stop\<close> sends the signals, then launches a thread that runs \<^verbatim>\<open>wait_for_threads\<close>.\<close>

definition stop :: "flow \<Rightarrow> unit res \<times> flow" where
  "stop s =
     then_do (stop_signals (nat (num_threads s)) s)
       (\<lambda>_ s1. (Ok (), s1\<lparr>waiters := Suc (waiters s1)\<rparr>))"

definition reset :: "flow \<Rightarrow> unit res \<times> flow" where
  "reset s = (Ok (), s\<lparr>batch_index := - 1\<rparr>)"

definition interrupt :: "flow \<Rightarrow> unit res \<times> flow" where
  "interrupt s = clear_queues (s\<lparr>interrupted := True\<rparr>)"

text \<open>
  \<^verbatim>\<open>self.coord.join(self.threads)\<close> needs the attribute, and returns once none of the
  threads is running. The coordinator's grace period is a matter of real time and is not
  followed here.
\<close>

definition wait_for_threads :: "flow \<Rightarrow> unit res \<times> flow" where
  "wait_for_threads s =
     (case threads s of
        None \<Rightarrow> (Raised AttributeError, s)
      | Some n \<Rightarrow> if 0 < running s then (Blocked, s) else put_feed_dict NoMoreData s)"

definition flow_next :: "nat option \<Rightarrow> flow \<Rightarrow> feed_item res \<times> flow" where
  "flow_next timeout s =
     get_feed_dict timeout (s\<lparr>data_status := DataFlowStatus_update (data_status s)\<rparr>)"

subsection \<open>The producer of batch ids\<close>

text \<open>
  The result is \<open>Some ids\<close>, or \<open>None\<close> for \<^verbatim>\<open>False\<close>. The last two statements read
  \<^verbatim>\<open>self.batches[self.batch_index]\<close> and index \<^verbatim>\<open>self.index_array\<close> by it, with the cursor
  as the statements before left it.
\<close>

definition next_batch_ids :: "flow \<Rightarrow> int list option res \<times> flow" where
  "next_batch_ids s =
     (let s1 = s\<lparr>batch_index := batch_index s + 1\<rparr>
      in if batch_index s1 = int (length (batches s1)) \<and> \<not> continuous s1
         then then_do (stop s1) (\<lambda>_ s2. (Ok None, s2))
         else
           then_do
             (if batch_index s1 = int (length (batches s1))
              then (if balanced_classes s1 then reset_balanced_batches s1 else reset_batches s1)
              else (Ok (), s1))
             (\<lambda>_ s2.
                then_do (lift (py_index (batches s2) (batch_index s2)) s2) (\<lambda>ind s3.
                then_do (lift (np_take (index_array s3) ind) s3) (\<lambda>ids s4.
                  (Ok (Some ids), s4)))))"

text \<open>How an iteration of a thread's loop ends.\<close>

datatype ctl = Continue | Break

text \<open>\<^verbatim>\<open>self.feed_dict.values()[1][ids].argmax(1)\<close>.\<close>

definition batch_labels :: "feed \<Rightarrow> int list \<Rightarrow> py_error + ndarray" where
  "batch_labels d ids =
     (case second_value d of
        Inl e \<Rightarrow> Inl e
      | Inr y \<Rightarrow> (case ndarray_take y ids of Inl e \<Rightarrow> Inl e | Inr yb \<Rightarrow> ndarray_argmax1 yb))"

text \<open>One pass through the loop of \<^verbatim>\<open>fill_batch_ids_queue\<close>, its test included.\<close>

definition fill_batch_ids_queue_iter :: "flow \<Rightarrow> ctl res \<times> flow" where
  "fill_batch_ids_queue_iter s =
     (if coord_should_stop s \<or> interrupted s then (Ok Break, s)
      else
        then_do (next_batch_ids s) (\<lambda>r s1.
          case r of
            None \<Rightarrow> (Ok Break, s1)
          | Some ids \<Rightarrow>
              then_do (lift (batch_labels (feed_dict s1) ids) s1) (\<lambda>labels s2.
                if int (length ids) \<noteq> fd_batch_size s2 then (Raised AssertionError, s2)
                else then_do (put_batch_ids (Some ids) s2) (\<lambda>_ s3. (Ok Continue, s3)))))"

text \<open>
  The loop may never end (continuous mode), so it runs on fuel: \<open>None\<close> says that the thread
  is still in its loop after that many passes, \<open>Some r\<close> how the thread function ended.
\<close>

fun fill_batch_ids_queue :: "nat \<Rightarrow> flow \<Rightarrow> unit res option \<times> flow" where
  "fill_batch_ids_queue 0 s = (None, s)"
| "fill_batch_ids_queue (Suc n) s =
     (case fill_batch_ids_queue_iter s of
        (Ok Continue, s') \<Rightarrow> fill_batch_ids_queue n s'
      | (Ok Break, s') \<Rightarrow> (Some (Ok ()), s')
      | (Raised e, s') \<Rightarrow> (Some (Raised e), s')
      | (Blocked, s') \<Rightarrow> (Some Blocked, s'))"

subsection \<open>The workers\<close>

fun retrieve_data_items :: "feed \<Rightarrow> int list \<Rightarrow> py_error + feed" where
  "retrieve_data_items [] ids = Inr []"
| "retrieve_data_items ((k, v) # d) ids =
     (case slice_array v ids of
        Inl e \<Rightarrow> Inl e
      | Inr v' \<Rightarrow>
          (case retrieve_data_items d ids of
             Inl e \<Rightarrow> Inl e
           | Inr d' \<Rightarrow> Inr ((k, v') # d')))"

definition retrieve_data :: "flow \<Rightarrow> int list \<Rightarrow> py_error + feed" where
  "retrieve_data s batch_ids = retrieve_data_items (feed_dict s) batch_ids"

text \<open>\<^verbatim>\<open>for k in d: data[k] = d[k].apply(data[k])\<close>; an empty or absent dictionary does nothing.\<close>

fun apply_all :: "(key \<times> transform) list \<Rightarrow> feed \<Rightarrow> py_error + feed" where
  "apply_all [] data = Inr data"
| "apply_all ((k, f) # d) data =
     (case map_of data k of
        None \<Rightarrow> Inl KeyError
      | Some v \<Rightarrow>
          (case f v of
             Inl e \<Rightarrow> Inl e
           | Inr v' \<Rightarrow> apply_all d (AList.update k v' data)))"

text \<open>One pass through the loop of \<^verbatim>\<open>fill_feed_dict_queue\<close>, its test included.\<close>

definition fill_feed_dict_queue_iter :: "flow \<Rightarrow> ctl res \<times> flow" where
  "fill_feed_dict_queue_iter s =
     (if coord_should_stop s \<or> interrupted s then (Ok Break, s)
      else
        then_do (get_batch_ids s) (\<lambda>r s1.
          case r of
            None \<Rightarrow> (Ok Break, s1)
          | Some batch_ids \<Rightarrow>
              then_do (lift (retrieve_data s1 batch_ids) s1) (\<lambda>data s2.
              then_do (lift (apply_all (daug_dict s2) data) s2) (\<lambda>data1 s3.
              then_do (lift (apply_all (dprep_dict s3) data1) s3) (\<lambda>data2 s4.
              then_do (put_feed_dict (FeedDict data2) s4) (\<lambda>_ s5. (Ok Continue, s5)))))))"

fun fill_feed_dict_queue :: "nat \<Rightarrow> flow \<Rightarrow> unit res option \<times> flow" where
  "fill_feed_dict_queue 0 s = (None, s)"
| "fill_feed_dict_queue (Suc n) s =
     (case fill_feed_dict_queue_iter s of
        (Ok Continue, s') \<Rightarrow> fill_feed_dict_queue n s'
      | (Ok Break, s') \<Rightarrow> (Some (Ok ()), s')
      | (Raised e, s') \<Rightarrow> (Some (Raised e), s')
      | (Blocked, s') \<Rightarrow> (Some Blocked, s'))"

text \<open>
  A thread of \<^verbatim>\<open>self.threads\<close> running its target: when the target returns or raises, the
  thread has finished.
\<close>

definition run_thread ::
  "(nat \<Rightarrow> flow \<Rightarrow> unit res option \<times> flow) \<Rightarrow> nat \<Rightarrow> flow \<Rightarrow> unit res option \<times> flow" where
  "run_thread target fuel s =
     (case target fuel s of
        (None, s') \<Rightarrow> (None, s')
      | (Some Blocked, s') \<Rightarrow> (Some Blocked, s')
      | (Some r, s') \<Rightarrow> (Some r, s'\<lparr>running := running s' - 1\<rparr>))"

text \<open>A launched \<^verbatim>\<open>wait_for_threads\<close> thread running; it is gone once it returned or raised.\<close>

definition run_waiter :: "flow \<Rightarrow> unit res \<times> flow" where
  "run_waiter s =
     (case wait_for_threads s of
        (Blocked, s') \<Rightarrow> (Blocked, s')
      | (r, s') \<Rightarrow> (r, s'\<lparr>waiters := waiters s' - 1\<rparr>))"

subsection \<open>Construction\<close>

text \<open>
  The arguments of \<^verbatim>\<open>FeedDictFlow.__init__\<close>, and with them what the object reaches outside
  of itself (\<open>a_rng\<close>, \<open>a_balanced_util\<close>).
\<close>

record flow_args =
  a_feed_dict :: feed
  a_coord_should_stop :: bool
  a_batch_size :: int
  a_num_threads :: int
  a_max_queue :: int
  a_shuffle :: bool
  a_continuous :: bool
  a_ensure_data_order :: bool
  a_dprep_dict :: "(key \<times> transform) list"
  a_daug_dict :: "(key \<times> transform) list"
  a_index_array :: "int list option"
  a_balanced_classes :: bool
  a_rng :: "nat \<Rightarrow> int list \<Rightarrow> int list"
  a_balanced_util :: "int \<Rightarrow> int \<Rightarrow> ndarray \<Rightarrow> py_error + int list list"

text \<open>
  The constructor assigns the fields in order: those of \<^verbatim>\<open>DataFlow.__init__\<close> first, then
  \<^verbatim>\<open>n_samples\<close> from the first value of the feed dict (\<^verbatim>\<open>len(None)\<close> raises), the two
  queues, the index array, the batches, and the status last. \<open>batches\<close>, \<open>batch_index\<close> and
  \<open>data_status\<close> are assigned before anything reads them; until then the record holds a
  placeholder.
\<close>

definition FeedDictFlow_init :: "flow_args \<Rightarrow> flow res" where
  "FeedDictFlow_init a =
     (case get_dict_first_element (a_feed_dict a) of
        None \<Rightarrow> Raised TypeError
      | Some v \<Rightarrow>
          (let n = (case a_index_array a of None \<Rightarrow> np_len v | Some ia \<Rightarrow> int (length ia));
               s0 = \<lparr>coord_should_stop = a_coord_should_stop a,
                     num_threads = (if a_ensure_data_order a then 1 else a_num_threads a),
                     max_queue = (if a_ensure_data_order a then 1 else a_max_queue a),
                     shuffle = a_shuffle a,
                     continuous = a_continuous a,
                     dprep_dict = a_dprep_dict a,
                     daug_dict = a_daug_dict a,
                     interrupted = False,
                     feed_dict = a_feed_dict a,
                     fd_batch_size = a_batch_size a,
                     fd_n_samples = n,
                     balanced_classes = a_balanced_classes a,
                     batch_ids_queue = [],
                     feed_dict_queue = [],
                     index_array =
                       (case a_index_array a of None \<Rightarrow> np_arange (np_len v) | Some ia \<Rightarrow> ia),
                     batches = [],
                     batch_index = - 1,
                     data_status = DataFlowStatus_init (a_batch_size a) n,
                     threads = None,
                     running = 0,
                     waiters = 0,
                     rng = a_rng a,
                     rng_draws = 0,
                     balanced_util = a_balanced_util a\<rparr>
           in case (if balanced_classes s0
                    then then_do (lift (make_balanced_batches s0) s0)
                           (\<lambda>b s1. reset_balanced_batches (s1\<lparr>batches := b\<rparr>))
                    else then_do (lift (make_batches s0) s0)
                           (\<lambda>b s1. reset_batches (s1\<lparr>batches := b\<rparr>))) of
                (Ok x, s2) \<Rightarrow>
                  Ok (s2\<lparr>data_status := DataFlowStatus_init (fd_batch_size s2) (fd_n_samples s2)\<rparr>)
              | (Raised e, s2) \<Rightarrow> Raised e
              | (Blocked, s2) \<Rightarrow> Blocked))"

subsection \<open>Sample pipelines\<close>

text \<open>
  A dataset of \<open>n\<close> samples under two keys: a vector \<open>X\<close> and one-hot labels \<open>Y\<close> of two
  classes. The other arguments are the defaults of the constructor's signature.
\<close>

definition example_feed :: "int \<Rightarrow> feed" where
  "example_feed n =
     [(''X'', NDArray [] (map (\<lambda>i. [10 * i]) [0..n - 1])),
      (''Y'', NDArray [2] (map (\<lambda>i. [i mod 2, 1 - i mod 2]) [0..n - 1]))]"

definition example_args :: "feed \<Rightarrow> int \<Rightarrow> bool \<Rightarrow> flow_args" where
  "example_args d bs cont =
     \<lparr>a_feed_dict = d, a_coord_should_stop = False, a_batch_size = bs,
      a_num_threads = 8, a_max_queue = 32, a_shuffle = False, a_continuous = cont,
      a_ensure_data_order = False, a_dprep_dict = [], a_daug_dict = [],
      a_index_array = None, a_balanced_classes = False,
      a_rng = (\<lambda>n xs. xs), a_balanced_util = (\<lambda>n bs labels. Inr [])\<rparr>"

definition example_flow :: "int \<Rightarrow> int \<Rightarrow> bool \<Rightarrow> flow" where
  "example_flow n bs cont = ok_value (FeedDictFlow_init (example_args (example_feed n) bs cont))"

text \<open>
  One schedule of the threads that \<^verbatim>\<open>start\<close> creates: the worker threads run their target one
  after the other, each until it finishes, blocks or has used its fuel.
\<close>

fun run_workers :: "nat \<Rightarrow> nat \<Rightarrow> flow \<Rightarrow> flow" where
  "run_workers 0 fuel s = s"
| "run_workers (Suc k) fuel s =
     run_workers k fuel (snd (run_thread fill_feed_dict_queue fuel s))"

text \<open>
  The sample pipeline of 8 samples in batches of 4, started; and the same after the producer
  thread and then the eight workers have run to their end.
\<close>

definition started_flow :: flow where
  "started_flow = snd (start True (example_flow 8 4 False))"

definition finished_flow :: flow where
  "finished_flow = run_workers 8 5 (snd (run_thread fill_batch_ids_queue 5 started_flow))"

text \<open>The finished pipeline once the launched \<^verbatim>\<open>wait_for_threads\<close> thread has run as well.\<close>

definition drained_flow :: flow where
  "drained_flow = snd (run_waiter finished_flow)"

text \<open>A dataset whose two keys disagree on the number of rows: three under \<open>X\<close>, two under \<open>Y\<close>.\<close>

definition mismatched_feed :: feed where
  "mismatched_feed =
     [(''X'', NDArray [] [[1], [2], [3]]),
      (''Y'', NDArray [2] [[1, 0], [0, 1]])]"

text \<open>
  A sample pipeline started, its producer thread run on some fuel and then its eight workers,
  one after the other, on the same fuel.
\<close>

definition pipeline_run :: "int \<Rightarrow> int \<Rightarrow> bool \<Rightarrow> nat \<Rightarrow> flow" where
  "pipeline_run n bs cont fuel =
     run_workers 8 fuel
       (snd (run_thread fill_batch_ids_queue fuel (snd (start True (example_flow n bs cont)))))"



subsection \<open>Watching the producer\<close>

text \<open>
  The batches that successive calls of \<^verbatim>\<open>next_batch_ids\<close> return, up to \<open>k\<close> calls and until
  a call does not return a batch; and the state that \<open>n\<close> calls leave.
\<close>

fun batch_ids_seq :: "nat \<Rightarrow> flow \<Rightarrow> int list list" where
  "batch_ids_seq 0 s = []"
| "batch_ids_seq (Suc k) s =
     (case next_batch_ids s of
        (Ok (Some ids), s') \<Rightarrow> ids # batch_ids_seq k s'
      | _ \<Rightarrow> [])"

fun after_calls :: "nat \<Rightarrow> flow \<Rightarrow> flow" where
  "after_calls 0 s = s"
| "after_calls (Suc n) s = after_calls n (snd (next_batch_ids s))"

text \<open>Two states with the same batches, index array and mode flags.\<close>

definition same_plan :: "flow \<Rightarrow> flow \<Rightarrow> bool" where
  "same_plan s t \<longleftrightarrow>
     batches s = batches t \<and> index_array s = index_array t \<and> continuous s = continuous t
     \<and> shuffle s = shuffle t \<and> balanced_classes s = balanced_classes t"

text \<open>The batch of sample ids at cursor \<open>i\<close>: \<^verbatim>\<open>self.index_array[np.array(self.batches[i])]\<close>.\<close>

definition plan_ids :: "flow \<Rightarrow> int \<Rightarrow> py_error + int list" where
  "plan_ids s i =
     (case py_index (batches s) i of
        Inl e \<Rightarrow> Inl e
      | Inr ind \<Rightarrow> np_take (index_array s) ind)"

section \<open>Properties\<close>

subsection \<open>The status record\<close>

text \<open>
  C3. For every status and every positive \<open>batch_size\<close> and \<open>n_samples\<close>, one \<^verbatim>\<open>update()\<close>
  raises \<open>step\<close> by one and sets \<open>current_iter\<close> to the smaller of the new step times
  \<open>batch_size\<close> and \<open>n_samples\<close>; if that is \<open>n_samples\<close>, \<open>epoch\<close> grows by one and \<open>step\<close>
  goes back to 0, and otherwise \<open>epoch\<close> stays and \<open>step\<close> keeps the raised value.
\<close>

theorem DataFlowStatus_update_step:
  assumes "0 < batch_size st" and "0 < n_samples st"
  shows "current_iter (DataFlowStatus_update st)
           = min ((step st + 1) * batch_size st) (n_samples st)
       \<and> (if min ((step st + 1) * batch_size st) (n_samples st) = n_samples st
          then epoch (DataFlowStatus_update st) = epoch st + 1
             \<and> step (DataFlowStatus_update st) = 0
          else epoch (DataFlowStatus_update st) = epoch st
             \<and> step (DataFlowStatus_update st) = step st + 1)
       \<and> batch_size (DataFlowStatus_update st) = batch_size st
       \<and> n_samples (DataFlowStatus_update st) = n_samples st"
  by (simp add: DataFlowStatus_update_def Let_def)

theorem DataFlowStatus_update_step_witness:
  "0 < batch_size \<lparr>step = 1, epoch = 0, current_iter = 4, batch_size = 4, n_samples = 8\<rparr>
   \<and> 0 < n_samples \<lparr>step = 1, epoch = 0, current_iter = 4, batch_size = 4, n_samples = 8\<rparr>
   \<and> DataFlowStatus_update \<lparr>step = 1, epoch = 0, current_iter = 4, batch_size = 4, n_samples = 8\<rparr>
       = \<lparr>step = 0, epoch = 1, current_iter = 8, batch_size = 4, n_samples = 8\<rparr>
   \<and> DataFlowStatus_update \<lparr>step = 0, epoch = 0, current_iter = 0, batch_size = 4, n_samples = 10\<rparr>
       = \<lparr>step = 1, epoch = 0, current_iter = 4, batch_size = 4, n_samples = 10\<rparr>"
  using DataFlowStatus_update_step
          [of "\<lparr>step = 1, epoch = 0, current_iter = 4, batch_size = 4, n_samples = 8\<rparr>"]
        DataFlowStatus_update_step
          [of "\<lparr>step = 0, epoch = 0, current_iter = 0, batch_size = 4, n_samples = 10\<rparr>"]
  by (simp add: DataFlowStatus_update_def Let_def)

text \<open>
  C10. \<^verbatim>\<open>DataFlowStatus.reset()\<close> sets \<open>step\<close> and \<open>epoch\<close> to 0 and changes nothing else:
  \<open>current_iter\<close>, \<open>batch_size\<close> and \<open>n_samples\<close> keep their values.
\<close>

theorem DataFlowStatus_reset_frame:
  "step (DataFlowStatus_reset st) = 0
   \<and> epoch (DataFlowStatus_reset st) = 0
   \<and> current_iter (DataFlowStatus_reset st) = current_iter st
   \<and> batch_size (DataFlowStatus_reset st) = batch_size st
   \<and> n_samples (DataFlowStatus_reset st) = n_samples st
   \<and> DataFlowStatus_reset st = st\<lparr>step := 0, epoch := 0\<rparr>"
  by (simp add: DataFlowStatus_reset_def)

subsection \<open>Stopping\<close>

text \<open>Draining a queue always returns, and leaves it empty.\<close>

lemma clear_feed_dict_queue_eq:
  "clear_feed_dict_queue s = (Ok (), s\<lparr>feed_dict_queue := []\<rparr>)"
proof (induction s rule: clear_feed_dict_queue.induct)
  case (1 s)
  show ?case
  proof (cases "feed_dict_queue s")
    case Nil
    then show ?thesis by (subst clear_feed_dict_queue.simps) simp
  next
    case (Cons x q)
    then have g: "get_feed_dict None s = (Ok x, s\<lparr>feed_dict_queue := q\<rparr>)"
      by (simp add: get_feed_dict_def)
    from Cons have "feed_dict_queue s \<noteq> []" by simp
    from "1.IH" [OF this g [symmetric] refl] g Cons show ?thesis
      by (subst clear_feed_dict_queue.simps) simp
  qed
qed

lemma clear_batch_ids_queue_eq:
  "clear_batch_ids_queue s = (Ok (), s\<lparr>batch_ids_queue := []\<rparr>)"
proof (induction s rule: clear_batch_ids_queue.induct)
  case (1 s)
  show ?case
  proof (cases "batch_ids_queue s")
    case Nil
    then show ?thesis by (subst clear_batch_ids_queue.simps) simp
  next
    case (Cons x q)
    then have g: "get_batch_ids s = (Ok x, s\<lparr>batch_ids_queue := q\<rparr>)"
      by (simp add: get_batch_ids_def)
    from Cons have "batch_ids_queue s \<noteq> []" by simp
    from "1.IH" [OF this g [symmetric] refl] g Cons show ?thesis
      by (subst clear_batch_ids_queue.simps) simp
  qed
qed

lemma clear_queues_eq:
  "clear_queues s = (Ok (), s\<lparr>feed_dict_queue := [], batch_ids_queue := []\<rparr>)"
  by (simp add: clear_queues_def then_do_def clear_feed_dict_queue_eq clear_batch_ids_queue_eq)


lemma stop_signals_returned:
  "stop_signals k s = (Ok u, s') \<Longrightarrow>
   s' = s\<lparr>batch_ids_queue := batch_ids_queue s @ replicate k None\<rparr>"
proof (induction k arbitrary: s)
  case 0
  then show ?case by simp
next
  case (Suc k)
  from Suc.prems have nf: "\<not> queue_full (max_queue s) (batch_ids_queue s)"
    by (auto simp: put_batch_ids_def split: if_splits)
  with Suc.prems have "stop_signals k (s\<lparr>batch_ids_queue := batch_ids_queue s @ [None]\<rparr>) = (Ok u, s')"
    by (simp add: put_batch_ids_def)
  from Suc.IH [OF this] show ?case
    by (simp add: replicate_app_Cons_same)
qed

lemma stop_signals_no_raise: "fst (stop_signals k s) \<noteq> Raised e"
  by (induction k arbitrary: s) (auto simp: put_batch_ids_def)





subsection \<open>Calling the lifecycle methods twice\<close>

lemma stop_returned:
  assumes "stop s = (Ok u, s')"
  shows "s' = s\<lparr>batch_ids_queue := batch_ids_queue s @ replicate (nat (num_threads s)) None,
                 waiters := Suc (waiters s)\<rparr>"
proof (cases "stop_signals (nat (num_threads s)) s")
  case (Pair r s1)
  with assms obtain v where r: "r = Ok v" and s': "s' = s1\<lparr>waiters := Suc (waiters s1)\<rparr>"
    by (cases r) (auto simp: stop_def then_do_def)
  from Pair r have "s1 = s\<lparr>batch_ids_queue := batch_ids_queue s @ replicate (nat (num_threads s)) None\<rparr>"
    using stop_signals_returned by blast
  with s' show ?thesis by simp
qed

lemma stop_no_raise: "fst (stop s) \<noteq> Raised e"
proof (cases "stop_signals (nat (num_threads s)) s")
  case (Pair r s1)
  with stop_signals_no_raise [of "nat (num_threads s)" s e] show ?thesis
    by (cases r) (auto simp: stop_def then_do_def)
qed

lemma interrupt_eq:
  "interrupt s = (Ok (), s\<lparr>interrupted := True, feed_dict_queue := [], batch_ids_queue := []\<rparr>)"
  by (simp add: interrupt_def clear_queues_eq)

text \<open>
  C6, as the code has it. \<^verbatim>\<open>reset()\<close> and \<^verbatim>\<open>interrupt()\<close> return in every state, also before
  \<^verbatim>\<open>start()\<close>, and a second call in a row changes nothing more. \<^verbatim>\<open>stop()\<close> never raises in
  its caller, but it is not idempotent: of two calls that return, each puts its own
  \<open>num_threads\<close> stop signals on the queue of batch ids and launches its own waiting thread.
\<close>

theorem lifecycle_calls:
  assumes "stop s = (Ok u, s1)" and "stop s1 = (Ok v, s2)"
  shows "fst (reset t) = Ok () \<and> reset (snd (reset t)) = reset t
       \<and> fst (interrupt t) = Ok () \<and> interrupt (snd (interrupt t)) = interrupt t
       \<and> fst (stop t) \<noteq> Raised e
       \<and> batch_ids_queue s2 = batch_ids_queue s @ replicate (2 * nat (num_threads s)) None
       \<and> waiters s2 = waiters s + 2"
proof -
  have a: "fst (reset t) = Ok () \<and> reset (snd (reset t)) = reset t"
    by (simp add: reset_def)
  have b: "fst (interrupt t) = Ok () \<and> interrupt (snd (interrupt t)) = interrupt t"
    by (simp add: interrupt_eq)
  have c: "fst (stop t) \<noteq> Raised e" by (rule stop_no_raise)
  from stop_returned [OF assms(1)] stop_returned [OF assms(2)]
  have d: "batch_ids_queue s2 = batch_ids_queue s @ replicate (2 * nat (num_threads s)) None
         \<and> waiters s2 = waiters s + 2"
    by (simp add: mult_2 replicate_add)
  from a b c d show ?thesis by simp
qed

theorem lifecycle_calls_witness:
  "stop (example_flow 8 4 False) = (Ok (), snd (stop (example_flow 8 4 False)))
   \<and> stop (snd (stop (example_flow 8 4 False)))
       = (Ok (), snd (stop (snd (stop (example_flow 8 4 False)))))
   \<and> (fst (reset started_flow) = Ok () \<and> reset (snd (reset started_flow)) = reset started_flow
      \<and> fst (interrupt started_flow) = Ok ()
      \<and> interrupt (snd (interrupt started_flow)) = interrupt started_flow
      \<and> fst (stop started_flow) \<noteq> Raised AttributeError
      \<and> batch_ids_queue (snd (stop (snd (stop (example_flow 8 4 False)))))
          = batch_ids_queue (example_flow 8 4 False)
            @ replicate (2 * nat (num_threads (example_flow 8 4 False))) None
      \<and> waiters (snd (stop (snd (stop (example_flow 8 4 False)))))
          = waiters (example_flow 8 4 False) + 2)"
proof -
  have "fst (stop (example_flow 8 4 False)) = Ok ()" by code_simp
  then have a: "stop (example_flow 8 4 False) = (Ok (), snd (stop (example_flow 8 4 False)))"
    by (simp add: prod_eq_iff)
  have "fst (stop (snd (stop (example_flow 8 4 False)))) = Ok ()" by code_simp
  then have b: "stop (snd (stop (example_flow 8 4 False)))
      = (Ok (), snd (stop (snd (stop (example_flow 8 4 False)))))"
    by (simp add: prod_eq_iff)
  from a b lifecycle_calls [OF a b, of started_flow AttributeError]
  show ?thesis by blast
qed

text \<open>
  C6 as stated fails for \<^verbatim>\<open>stop()\<close>: on the sample pipeline before \<^verbatim>\<open>start()\<close>, both calls
  return, and the state after the second is not the state after the first.
\<close>

theorem stop_twice_counterexample:
  "is_Ok (FeedDictFlow_init (example_args (example_feed 8) 4 False))
   \<and> threads (example_flow 8 4 False) = None
   \<and> fst (stop (example_flow 8 4 False)) = Ok ()
   \<and> fst (stop (snd (stop (example_flow 8 4 False)))) = Ok ()
   \<and> snd (stop (snd (stop (example_flow 8 4 False)))) \<noteq> snd (stop (example_flow 8 4 False))"
proof -
  have i: "is_Ok (FeedDictFlow_init (example_args (example_feed 8) 4 False))" by code_simp
  have n: "threads (example_flow 8 4 False) = None" by code_simp
  have a: "fst (stop (example_flow 8 4 False)) = Ok ()" by code_simp
  have b: "fst (stop (snd (stop (example_flow 8 4 False)))) = Ok ()" by code_simp
  have c: "length (batch_ids_queue (snd (stop (snd (stop (example_flow 8 4 False)))))) = 16"
    by code_simp
  have d: "length (batch_ids_queue (snd (stop (example_flow 8 4 False)))) = 8"
    by code_simp
  from c d have "snd (stop (snd (stop (example_flow 8 4 False)))) \<noteq> snd (stop (example_flow 8 4 False))"
    by auto
  with i n a b show ?thesis by simp
qed

subsection \<open>The status and \<^verbatim>\<open>next\<close>\<close>

lemma DataFlowStatus_update_changes: "DataFlowStatus_update st \<noteq> st"
proof
  assume eq: "DataFlowStatus_update st = st"
  then have "step (DataFlowStatus_update st) = step st" and "epoch (DataFlowStatus_update st) = epoch st"
    by simp_all
  then show False
    by (simp add: DataFlowStatus_update_def Let_def split: if_splits)
qed

text \<open>
  C4 asks that a \<^verbatim>\<open>next(timeout)\<close> that times out, or that returns the end signal, leave the
  status as it was. \<^verbatim>\<open>next\<close> calls \<^verbatim>\<open>update()\<close> before it reads the queue, so the status after
  any call is the updated one, which always differs from the one before. On the sample
  pipeline: a call that times out on the empty queue has moved \<open>step\<close> and \<open>current_iter\<close>;
  and after the two batches of the only epoch have been read, the call that returns the end
  signal moves them again.
\<close>

theorem flow_next_updates_before_reading:
  "data_status (snd (flow_next timeout s)) = DataFlowStatus_update (data_status s)
   \<and> data_status (snd (flow_next timeout s)) \<noteq> data_status s
   \<and> is_Ok (FeedDictFlow_init (example_args (example_feed 8) 4 False))
   \<and> fst (flow_next (Some 1) (example_flow 8 4 False)) = Raised QueueEmpty
   \<and> data_status (example_flow 8 4 False)
       = \<lparr>step = 0, epoch = 0, current_iter = 0, batch_size = 4, n_samples = 8\<rparr>
   \<and> data_status (snd (flow_next (Some 1) (example_flow 8 4 False)))
       = \<lparr>step = 1, epoch = 0, current_iter = 4, batch_size = 4, n_samples = 8\<rparr>
   \<and> data_status (snd (flow_next None (snd (flow_next None drained_flow))))
       = \<lparr>step = 0, epoch = 1, current_iter = 8, batch_size = 4, n_samples = 8\<rparr>
   \<and> fst (flow_next None (snd (flow_next None (snd (flow_next None drained_flow)))))
       = Ok NoMoreData
   \<and> data_status (snd (flow_next None (snd (flow_next None (snd (flow_next None drained_flow))))))
       = \<lparr>step = 1, epoch = 1, current_iter = 4, batch_size = 4, n_samples = 8\<rparr>"
proof -
  have a: "data_status (snd (flow_next timeout s)) = DataFlowStatus_update (data_status s)"
    by (simp add: flow_next_def get_feed_dict_def split: list.splits option.splits)
  have b: "data_status (snd (flow_next timeout s)) \<noteq> data_status s"
    unfolding a by (rule DataFlowStatus_update_changes)
  have i: "is_Ok (FeedDictFlow_init (example_args (example_feed 8) 4 False))"
    by code_simp
  have c: "fst (flow_next (Some 1) (example_flow 8 4 False)) = Raised QueueEmpty"
    by code_simp
  have d: "data_status (example_flow 8 4 False)
       = \<lparr>step = 0, epoch = 0, current_iter = 0, batch_size = 4, n_samples = 8\<rparr>"
    by code_simp
  have e: "data_status (snd (flow_next (Some 1) (example_flow 8 4 False)))
       = \<lparr>step = 1, epoch = 0, current_iter = 4, batch_size = 4, n_samples = 8\<rparr>"
    by code_simp
  have f: "data_status (snd (flow_next None (snd (flow_next None drained_flow))))
       = \<lparr>step = 0, epoch = 1, current_iter = 8, batch_size = 4, n_samples = 8\<rparr>"
    by code_simp
  have g: "fst (flow_next None (snd (flow_next None (snd (flow_next None drained_flow)))))
       = Ok NoMoreData"
    by code_simp
  have h: "data_status (snd (flow_next None (snd (flow_next None (snd (flow_next None drained_flow))))))
       = \<lparr>step = 1, epoch = 1, current_iter = 4, batch_size = 4, n_samples = 8\<rparr>"
    by code_simp
  from a b i c d e f g h show ?thesis by blast
qed

subsection \<open>What the constructor checks\<close>

text \<open>
  C5, as the code has it. The constructor compares no lengths: for a feed dict with at least
  one key, a positive batch size and uniform batching it returns the object, with \<open>n_samples\<close>
  the row count of the first value alone (or the length of \<^verbatim>\<open>index_array\<close> when one is given),
  whatever the other values are.
\<close>

theorem FeedDictFlow_init_first_value_only:
  assumes "a_feed_dict a = (k, v) # others" and "0 < a_batch_size a"
    and "\<not> a_balanced_classes a"
  shows "is_Ok (FeedDictFlow_init a)
       \<and> fd_n_samples (ok_value (FeedDictFlow_init a))
           = (case a_index_array a of None \<Rightarrow> np_len v | Some ia \<Rightarrow> int (length ia))
       \<and> feed_dict (ok_value (FeedDictFlow_init a)) = (k, v) # others"
  using assms
  by (simp add: FeedDictFlow_init_def get_dict_first_element_def Let_def make_batches_def
      make_batches_util_def lift_def then_do_def reset_batches_def shuffle_samples_def)

theorem FeedDictFlow_init_first_value_only_witness:
  "a_feed_dict (example_args mismatched_feed 2 False)
     = (''X'', NDArray [] [[1], [2], [3]]) # [(''Y'', NDArray [2] [[1, 0], [0, 1]])]
   \<and> 0 < a_batch_size (example_args mismatched_feed 2 False)
   \<and> \<not> a_balanced_classes (example_args mismatched_feed 2 False)
   \<and> (is_Ok (FeedDictFlow_init (example_args mismatched_feed 2 False))
      \<and> fd_n_samples (ok_value (FeedDictFlow_init (example_args mismatched_feed 2 False)))
          = (case a_index_array (example_args mismatched_feed 2 False) of
               None \<Rightarrow> np_len (NDArray [] [[1], [2], [3]])
             | Some ia \<Rightarrow> int (length ia))
      \<and> feed_dict (ok_value (FeedDictFlow_init (example_args mismatched_feed 2 False)))
          = (''X'', NDArray [] [[1], [2], [3]]) # [(''Y'', NDArray [2] [[1, 0], [0, 1]])])"
proof -
  have a: "a_feed_dict (example_args mismatched_feed 2 False)
     = (''X'', NDArray [] [[1], [2], [3]]) # [(''Y'', NDArray [2] [[1, 0], [0, 1]])]"
    by (simp add: example_args_def mismatched_feed_def)
  have b: "0 < a_batch_size (example_args mismatched_feed 2 False)"
    by (simp add: example_args_def)
  have c: "\<not> a_balanced_classes (example_args mismatched_feed 2 False)"
    by (simp add: example_args_def)
  from a b c FeedDictFlow_init_first_value_only [OF a b c]
  show ?thesis by blast
qed

text \<open>
  C5 as stated fails: the two values of the sample dataset have different lengths, and the
  constructor returns the object.
\<close>

theorem mismatched_lengths_counterexample:
  "np_len (snd (mismatched_feed ! 0)) \<noteq> np_len (snd (mismatched_feed ! 1))
   \<and> is_Ok (FeedDictFlow_init (example_args mismatched_feed 2 False))"
  by code_simp

subsection \<open>The producer without shuffling\<close>

lemma same_plan_refl: "same_plan s s"
  by (simp add: same_plan_def)

lemma stop_signals_plan:
  "same_plan (snd (stop_signals k s)) s \<and> batch_index (snd (stop_signals k s)) = batch_index s"
  by (induction k arbitrary: s) (auto simp: put_batch_ids_def same_plan_def)

lemma stop_plan: "same_plan (snd (stop s)) s \<and> batch_index (snd (stop s)) = batch_index s"
proof (cases "stop_signals (nat (num_threads s)) s")
  case (Pair r s1)
  with stop_signals_plan [of "nat (num_threads s)" s] show ?thesis
    by (cases r) (auto simp: stop_def then_do_def same_plan_def)
qed

lemma plan_ids_cong:
  "batches t = batches s \<Longrightarrow> index_array t = index_array s \<Longrightarrow> plan_ids t i = plan_ids s i"
  by (simp add: plan_ids_def split: sum.splits)

text \<open>At the end of the plan a pipeline that is not continuous stops and returns no batch.\<close>

lemma next_batch_ids_end:
  assumes "batch_index s + 1 = int (length (batches s))" and "\<not> continuous s"
  shows "fst (next_batch_ids s) \<noteq> Ok (Some ids)"
proof (cases "stop (s\<lparr>batch_index := batch_index s + 1\<rparr>)")
  case (Pair r s1)
  with assms show ?thesis
    by (cases r) (auto simp: next_batch_ids_def Let_def then_do_def)
qed

text \<open>
  Everywhere else the call returns the batch at the cursor it settles on: the next one, or
  \<open>- 1\<close> when the plan has just been reset.
\<close>

lemma next_batch_ids_inside:
  assumes "\<not> shuffle s"
    and "\<not> (batch_index s + 1 = int (length (batches s)) \<and> \<not> continuous s)"
  shows "next_batch_ids s =
           (let i = (if batch_index s + 1 = int (length (batches s)) then - 1
                     else batch_index s + 1)
            in case plan_ids s i of
                 Inl e \<Rightarrow> (Raised e, s\<lparr>batch_index := i\<rparr>)
               | Inr ids \<Rightarrow> (Ok (Some ids), s\<lparr>batch_index := i\<rparr>))"
  using assms
  by (auto simp: next_batch_ids_def Let_def then_do_def lift_def reset_batches_def
      reset_balanced_batches_def plan_ids_def split: sum.splits)

lemma next_batch_ids_plan:
  assumes "\<not> shuffle s"
  shows "same_plan (snd (next_batch_ids s)) s"
proof (cases "batch_index s + 1 = int (length (batches s)) \<and> \<not> continuous s")
  case True
  have "same_plan (snd (stop (s\<lparr>batch_index := batch_index s + 1\<rparr>))) (s\<lparr>batch_index := batch_index s + 1\<rparr>)"
    using stop_plan by blast
  with True show ?thesis
    by (cases "stop (s\<lparr>batch_index := batch_index s + 1\<rparr>)")
       (auto simp: next_batch_ids_def Let_def then_do_def same_plan_def split: res.splits)
next
  case False
  from next_batch_ids_inside [OF assms False] show ?thesis
    by (auto simp: Let_def same_plan_def split: sum.splits)
qed

lemma after_calls_plan:
  "\<not> shuffle s \<Longrightarrow> same_plan (after_calls n s) s"
proof (induction n arbitrary: s)
  case 0
  then show ?case by (simp add: same_plan_refl)
next
  case (Suc n)
  from next_batch_ids_plan [OF Suc.prems]
  have p: "same_plan (snd (next_batch_ids s)) s" .
  with Suc.prems have "\<not> shuffle (snd (next_batch_ids s))" by (simp add: same_plan_def)
  from Suc.IH [OF this] p show ?case by (simp add: same_plan_def)
qed

lemma batch_ids_seq_same_plan:
  "same_plan s t \<Longrightarrow> \<not> shuffle s \<Longrightarrow> batch_index s = batch_index t \<Longrightarrow>
   batch_ids_seq k s = batch_ids_seq k t"
proof (induction k arbitrary: s t)
  case 0
  then show ?case by simp
next
  case (Suc k)
  from Suc.prems have sh: "\<not> shuffle t" by (simp add: same_plan_def)
  show ?case
  proof (cases "batch_index s + 1 = int (length (batches s)) \<and> \<not> continuous s")
    case True
    with Suc.prems have Tt: "batch_index t + 1 = int (length (batches t)) \<and> \<not> continuous t"
      by (simp add: same_plan_def)
    from True have "\<And>ids. fst (next_batch_ids s) \<noteq> Ok (Some ids)"
      using next_batch_ids_end by blast
    then have a: "batch_ids_seq (Suc k) s = []"
      by (cases "next_batch_ids s") (auto split: res.splits option.splits)
    from Tt have "\<And>ids. fst (next_batch_ids t) \<noteq> Ok (Some ids)"
      using next_batch_ids_end by blast
    then have b: "batch_ids_seq (Suc k) t = []"
      by (cases "next_batch_ids t") (auto split: res.splits option.splits)
    from a b show ?thesis by simp
  next
    case False
    with Suc.prems have Ft: "\<not> (batch_index t + 1 = int (length (batches t)) \<and> \<not> continuous t)"
      by (simp add: same_plan_def)
    let ?i = "if batch_index s + 1 = int (length (batches s)) then - 1 else batch_index s + 1"
    from Suc.prems have i: "(if batch_index t + 1 = int (length (batches t)) then - 1 else batch_index t + 1) = ?i"
      by (simp add: same_plan_def)
    from Suc.prems have "batches t = batches s" "index_array t = index_array s"
      by (simp_all add: same_plan_def)
    then have pl: "plan_ids t ?i = plan_ids s ?i"
      by (rule plan_ids_cong)
    note ns = next_batch_ids_inside [OF Suc.prems(2) False]
    note nt = next_batch_ids_inside [OF sh Ft]
    show ?thesis
    proof (cases "plan_ids s ?i")
      case (Inl e)
      with ns nt i pl show ?thesis by (simp add: Let_def)
    next
      case (Inr ids)
      have "batch_ids_seq k (s\<lparr>batch_index := ?i\<rparr>) = batch_ids_seq k (t\<lparr>batch_index := ?i\<rparr>)"
        using Suc.prems by (intro Suc.IH) (simp_all add: same_plan_def)
      with Inr ns nt i pl show ?thesis by (simp add: Let_def)
    qed
  qed
qed

lemma start_plan: "same_plan (snd (start b s)) s \<and> batch_index (snd (start b s)) = batch_index s"
  by (simp add: start_def clear_queues_eq then_do_def Let_def same_plan_def)

text \<open>
  In continuous mode the call that reaches the end of the plan resets the cursor to \<open>- 1\<close>
  and reads the plan there: it returns the last batch once more.
\<close>

lemma next_batch_ids_wraps_to_last:
  assumes "continuous s" and "\<not> shuffle s" and "batch_index s + 1 = int (length (batches s))"
    and "batches s \<noteq> []"
  shows "next_batch_ids s =
           (case np_take (index_array s) (last (batches s)) of
              Inl e \<Rightarrow> (Raised e, s\<lparr>batch_index := - 1\<rparr>)
            | Inr ids \<Rightarrow> (Ok (Some ids), s\<lparr>batch_index := - 1\<rparr>))"
proof -
  from assms(4) have "py_index (batches s) (- 1) = Inr (last (batches s))"
    by (cases "batches s" rule: rev_cases) (auto simp: py_index_def Let_def nat_add_distrib)
  with next_batch_ids_inside [of s] assms show ?thesis
    by (simp add: plan_ids_def Let_def)
qed

text \<open>
  C1 asks that in continuous mode the call after \<open>E * B\<close> batches starts a new epoch with the
  first batch of the plan. On the sample pipeline of 8 samples in batches of 4 (\<open>B = 2\<close>,
  \<open>E = 1\<close>) no call returns the end signal and the producer never stops, but the third batch
  is \<open>[4, 5, 6, 7]\<close>, the last batch again, and the cursor is left at \<open>- 1\<close>; the first batch
  comes fourth. The third feed dict the consumer gets is the slice by \<open>[4, 5, 6, 7]\<close>.
\<close>

theorem continuous_epoch_boundary:
  "is_Ok (FeedDictFlow_init (example_args (example_feed 8) 4 True))
   \<and> batches (example_flow 8 4 True) = [[0, 1, 2, 3], [4, 5, 6, 7]]
   \<and> batch_ids_seq 5 (example_flow 8 4 True)
       = [[0, 1, 2, 3], [4, 5, 6, 7], [4, 5, 6, 7], [0, 1, 2, 3], [4, 5, 6, 7]]
   \<and> batch_index (after_calls 2 (example_flow 8 4 True)) = 1
   \<and> fst (next_batch_ids (after_calls 2 (example_flow 8 4 True))) = Ok (Some [4, 5, 6, 7])
   \<and> batch_index (after_calls 3 (example_flow 8 4 True)) = - 1
   \<and> fst (fill_batch_ids_queue 3 (snd (start True (example_flow 8 4 True)))) = None
   \<and> batch_ids_queue (snd (fill_batch_ids_queue 3 (snd (start True (example_flow 8 4 True)))))
       = [Some [0, 1, 2, 3], Some [4, 5, 6, 7], Some [4, 5, 6, 7]]
   \<and> fst (flow_next None (snd (flow_next None (snd (flow_next None (pipeline_run 8 4 True 3))))))
       = Ok (FeedDict [(''X'', NDArray [] [[40], [50], [60], [70]]),
                       (''Y'', NDArray [2] [[0, 1], [1, 0], [0, 1], [1, 0]])])"
  by code_simp

lemma reset_batches_cursor:
  "reset_batches s = (Ok u, s') \<Longrightarrow> batch_index s' = - 1"
  by (auto simp: reset_batches_def then_do_def lift_def Let_def
      split: if_splits sum.splits)

lemma reset_balanced_batches_cursor:
  "reset_balanced_batches s = (Ok u, s') \<Longrightarrow> batch_index s' = - 1"
  by (auto simp: reset_balanced_batches_def then_do_def lift_def Let_def
      split: if_splits sum.splits)

lemma FeedDictFlow_init_cursor:
  assumes "FeedDictFlow_init a = Ok s0"
  shows "batch_index s0 = - 1"
  using assms
  by (auto simp: FeedDictFlow_init_def Let_def then_do_def lift_def
      split: option.splits if_splits sum.splits prod.splits res.splits
      dest: reset_batches_cursor reset_balanced_batches_cursor)

text \<open>After \<^verbatim>\<open>reset()\<close> the first call returns the first batch of a plan that has one.\<close>

lemma next_batch_ids_after_reset:
  assumes "batches r \<noteq> []"
  shows "next_batch_ids (snd (reset r))
           = (case plan_ids r 0 of
                Inl e \<Rightarrow> (Raised e, r\<lparr>batch_index := 0\<rparr>)
              | Inr ids \<Rightarrow> (Ok (Some ids), r\<lparr>batch_index := 0\<rparr>))"
  using assms
  by (auto simp: next_batch_ids_def reset_def Let_def then_do_def lift_def plan_ids_def
      split: sum.splits)

text \<open>
  C8, as the code has it. \<^verbatim>\<open>reset()\<close> sets the cursor to \<open>- 1\<close>, where the constructor leaves
  it, and changes nothing else, so that the first call after it returns the first batch of a
  plan that is not empty. \<^verbatim>\<open>start()\<close> changes neither the cursor nor the batches nor the index
  array: after a \<^verbatim>\<open>start()\<close> alone the calls go on from the cursor as it is. Without
  shuffling, \<^verbatim>\<open>reset_batches\<close> changes the cursor only and no number of \<^verbatim>\<open>next_batch_ids\<close>
  calls changes the batches or the index array. Hence, in every state \<open>t\<close> of the pipeline
  with the plan of \<open>s\<close>, after \<^verbatim>\<open>reset()\<close>, followed by \<^verbatim>\<open>start()\<close> or not, the calls return
  the batches of the pass from cursor \<open>- 1\<close>, in the same order.
\<close>

theorem unshuffled_reset_replays:
  assumes unshuffled: "\<not> shuffle s" and plan: "same_plan t s"
    and constructed: "FeedDictFlow_init a = Ok s0"
  shows "reset r = (Ok (), r\<lparr>batch_index := - 1\<rparr>)
       \<and> batch_index (snd (reset r)) = - 1
       \<and> (batches r = []
          \<or> next_batch_ids (snd (reset r))
              = (case plan_ids r 0 of
                   Inl e \<Rightarrow> (Raised e, r\<lparr>batch_index := 0\<rparr>)
                 | Inr ids \<Rightarrow> (Ok (Some ids), r\<lparr>batch_index := 0\<rparr>)))
       \<and> batch_index s0 = - 1
       \<and> batch_index (snd (start b r)) = batch_index r
       \<and> batches (snd (start b r)) = batches r
       \<and> index_array (snd (start b r)) = index_array r
       \<and> snd (reset_batches s) = s\<lparr>batch_index := - 1\<rparr>
       \<and> batches (after_calls n s) = batches s
       \<and> index_array (after_calls n s) = index_array s
       \<and> batch_ids_seq k (snd (reset t)) = batch_ids_seq k (s\<lparr>batch_index := - 1\<rparr>)
       \<and> batch_ids_seq k (snd (start b (snd (reset t))))
           = batch_ids_seq k (s\<lparr>batch_index := - 1\<rparr>)
       \<and> batch_ids_seq k (snd (start b t)) = batch_ids_seq k t
       \<and> batch_ids_seq k (snd (reset (after_calls n (snd (reset s)))))
           = batch_ids_seq k (snd (reset s))
       \<and> batch_ids_seq k (snd (start b (snd (reset (after_calls n (snd (reset s)))))))
           = batch_ids_seq k (snd (reset s))"
proof -
  let ?m = "s\<lparr>batch_index := - 1\<rparr>"
  have r1: "reset r = (Ok (), r\<lparr>batch_index := - 1\<rparr>)" by (simp add: reset_def)
  have r2: "batch_index (snd (reset r)) = - 1" by (simp add: reset_def)
  have r3: "batches r = []
          \<or> next_batch_ids (snd (reset r))
              = (case plan_ids r 0 of
                   Inl e \<Rightarrow> (Raised e, r\<lparr>batch_index := 0\<rparr>)
                 | Inr ids \<Rightarrow> (Ok (Some ids), r\<lparr>batch_index := 0\<rparr>))"
    using next_batch_ids_after_reset [of r] by blast
  have i: "batch_index s0 = - 1" by (rule FeedDictFlow_init_cursor [OF constructed])
  have s1: "batch_index (snd (start b r)) = batch_index r"
    using start_plan [of b r] by simp
  have s2: "batches (snd (start b r)) = batches r \<and> index_array (snd (start b r)) = index_array r"
    using start_plan [of b r] by (simp add: same_plan_def)
  have rb: "snd (reset_batches s) = ?m"
    using unshuffled by (simp add: reset_batches_def then_do_def)
  have ac: "batches (after_calls n s) = batches s \<and> index_array (after_calls n s) = index_array s"
    using after_calls_plan [OF unshuffled, of n] by (simp add: same_plan_def)
  have tsh: "\<not> shuffle t" using plan unshuffled by (simp add: same_plan_def)
  have rt: "same_plan (snd (reset t)) ?m" "batch_index (snd (reset t)) = batch_index ?m"
      "\<not> shuffle (snd (reset t))"
    using plan unshuffled by (simp_all add: reset_def same_plan_def)
  have e: "batch_ids_seq k (snd (reset t)) = batch_ids_seq k ?m"
    by (rule batch_ids_seq_same_plan [OF rt(1) rt(3) rt(2)])
  have st: "same_plan (snd (start b (snd (reset t)))) ?m"
      "batch_index (snd (start b (snd (reset t)))) = batch_index ?m"
      "\<not> shuffle (snd (start b (snd (reset t))))"
    using start_plan [of b "snd (reset t)"] rt by (simp_all add: same_plan_def)
  have f: "batch_ids_seq k (snd (start b (snd (reset t)))) = batch_ids_seq k ?m"
    by (rule batch_ids_seq_same_plan [OF st(1) st(3) st(2)])
  have g0: "same_plan (snd (start b t)) t" "batch_index (snd (start b t)) = batch_index t"
      "\<not> shuffle (snd (start b t))"
    using start_plan [of b t] tsh by (simp_all add: same_plan_def)
  have g: "batch_ids_seq k (snd (start b t)) = batch_ids_seq k t"
    by (rule batch_ids_seq_same_plan [OF g0(1) g0(3) g0(2)])
  let ?r = "snd (reset s)"
  let ?u = "after_calls n ?r"
  have rs: "same_plan ?r s" "batch_index ?r = - 1" "\<not> shuffle ?r"
    using unshuffled by (simp_all add: reset_def same_plan_def)
  from after_calls_plan [OF rs(3)] have up: "same_plan ?u ?r" .
  have ru: "same_plan (snd (reset ?u)) ?r" "batch_index (snd (reset ?u)) = batch_index ?r"
      "\<not> shuffle (snd (reset ?u))"
    using up rs by (simp_all add: reset_def same_plan_def)
  have h: "batch_ids_seq k (snd (reset ?u)) = batch_ids_seq k ?r"
    by (rule batch_ids_seq_same_plan [OF ru(1) ru(3) ru(2)])
  have su: "same_plan (snd (start b (snd (reset ?u)))) ?r"
      "batch_index (snd (start b (snd (reset ?u)))) = batch_index ?r"
      "\<not> shuffle (snd (start b (snd (reset ?u))))"
    using start_plan [of b "snd (reset ?u)"] ru by (simp_all add: same_plan_def)
  have j: "batch_ids_seq k (snd (start b (snd (reset ?u)))) = batch_ids_seq k ?r"
    by (rule batch_ids_seq_same_plan [OF su(1) su(3) su(2)])
  from r1 r2 r3 i s1 s2 rb ac e f g h j show ?thesis by blast
qed

theorem unshuffled_reset_replays_witness:
  "\<not> shuffle (example_flow 8 4 False)
   \<and> same_plan (after_calls 3 (example_flow 8 4 False)) (example_flow 8 4 False)
   \<and> FeedDictFlow_init (example_args (example_feed 8) 4 False) = Ok (example_flow 8 4 False)
   \<and> (reset (after_calls 3 (example_flow 8 4 False)) = (Ok (), (after_calls 3 (example_flow 8 4 False))\<lparr>batch_index := - 1\<rparr>)
       \<and> batch_index (snd (reset (after_calls 3 (example_flow 8 4 False)))) = - 1
       \<and> (batches (after_calls 3 (example_flow 8 4 False)) = []
          \<or> next_batch_ids (snd (reset (after_calls 3 (example_flow 8 4 False))))
              = (case plan_ids (after_calls 3 (example_flow 8 4 False)) 0 of
                   Inl e \<Rightarrow> (Raised e, (after_calls 3 (example_flow 8 4 False))\<lparr>batch_index := 0\<rparr>)
                 | Inr ids \<Rightarrow> (Ok (Some ids), (after_calls 3 (example_flow 8 4 False))\<lparr>batch_index := 0\<rparr>)))
       \<and> batch_index (example_flow 8 4 False) = - 1
       \<and> batch_index (snd (start True (after_calls 3 (example_flow 8 4 False)))) = batch_index (after_calls 3 (example_flow 8 4 False))
       \<and> batches (snd (start True (after_calls 3 (example_flow 8 4 False)))) = batches (after_calls 3 (example_flow 8 4 False))
       \<and> index_array (snd (start True (after_calls 3 (example_flow 8 4 False)))) = index_array (after_calls 3 (example_flow 8 4 False))
       \<and> snd (reset_batches (example_flow 8 4 False)) = (example_flow 8 4 False)\<lparr>batch_index := - 1\<rparr>
       \<and> batches (after_calls 3 (example_flow 8 4 False)) = batches (example_flow 8 4 False)
       \<and> index_array (after_calls 3 (example_flow 8 4 False)) = index_array (example_flow 8 4 False)
       \<and> batch_ids_seq 3 (snd (reset (after_calls 3 (example_flow 8 4 False)))) = batch_ids_seq 3 ((example_flow 8 4 False)\<lparr>batch_index := - 1\<rparr>)
       \<and> batch_ids_seq 3 (snd (start True (snd (reset (after_calls 3 (example_flow 8 4 False))))))
           = batch_ids_seq 3 ((example_flow 8 4 False)\<lparr>batch_index := - 1\<rparr>)
       \<and> batch_ids_seq 3 (snd (start True (after_calls 3 (example_flow 8 4 False)))) = batch_ids_seq 3 (after_calls 3 (example_flow 8 4 False))
       \<and> batch_ids_seq 3 (snd (reset (after_calls 3 (snd (reset (example_flow 8 4 False))))))
           = batch_ids_seq 3 (snd (reset (example_flow 8 4 False)))
       \<and> batch_ids_seq 3 (snd (start True (snd (reset (after_calls 3 (snd (reset (example_flow 8 4 False))))))))
           = batch_ids_seq 3 (snd (reset (example_flow 8 4 False))))
   \<and> batch_ids_seq 3 (example_flow 8 4 False) = [[0, 1, 2, 3], [4, 5, 6, 7]]
   \<and> batch_ids_seq 3 (snd (reset (after_calls 3 (example_flow 8 4 False)))) = [[0, 1, 2, 3], [4, 5, 6, 7]]"
proof -
  have a: "\<not> shuffle (example_flow 8 4 False)" by code_simp
  have b: "same_plan (after_calls 3 (example_flow 8 4 False)) (example_flow 8 4 False)" by code_simp
  have "is_Ok (FeedDictFlow_init (example_args (example_feed 8) 4 False))" by code_simp
  then have c: "FeedDictFlow_init (example_args (example_feed 8) 4 False) = Ok (example_flow 8 4 False)"
    by (simp add: example_flow_def)
  have d: "batch_ids_seq 3 (example_flow 8 4 False) = [[0, 1, 2, 3], [4, 5, 6, 7]]" by code_simp
  have e: "batch_ids_seq 3 (snd (reset (after_calls 3 (example_flow 8 4 False)))) = [[0, 1, 2, 3], [4, 5, 6, 7]]"
    by code_simp
  from a b c d e
       unshuffled_reset_replays [OF a b c, where r = "after_calls 3 (example_flow 8 4 False)"
         and b = True and n = 3 and k = 3]
  show ?thesis by blast
qed

text \<open>
  C8 as stated fails for a \<^verbatim>\<open>start()\<close> without \<^verbatim>\<open>reset()\<close>: on the sample pipeline, after the
  pass of two batches has ended, \<^verbatim>\<open>start()\<close> leaves the cursor behind the plan, and the next
  call raises instead of returning the first batch.
\<close>

theorem start_without_reset_counterexample:
  "is_Ok (FeedDictFlow_init (example_args (example_feed 8) 4 False))
   \<and> \<not> shuffle (example_flow 8 4 False)
   \<and> batch_ids_seq 3 (example_flow 8 4 False) = [[0, 1, 2, 3], [4, 5, 6, 7]]
   \<and> fst (next_batch_ids (after_calls 2 (example_flow 8 4 False))) = Ok None
   \<and> fst (next_batch_ids (snd (start True (after_calls 3 (example_flow 8 4 False)))))
       = Raised IndexError
   \<and> batch_ids_seq 3 (snd (start True (after_calls 3 (example_flow 8 4 False))))
       \<noteq> batch_ids_seq 3 (example_flow 8 4 False)"
  by code_simp

subsection \<open>The producer and the labels\<close>

text \<open>
  C2 asks that 10 samples in batches of 4 come out as three batches and then the end signal.
  The plan has the three batches, but the producer asserts that every batch has
  \<open>batch_size\<close> ids: it queues two batches and raises on \<open>[8, 9]\<close> without calling
  \<^verbatim>\<open>stop()\<close>. The workers deliver the two feed dicts; no waiting thread was launched, so
  no end signal follows, and the third \<^verbatim>\<open>next()\<close> waits for ever, or times out.
\<close>

theorem short_last_batch_assertion:
  "is_Ok (FeedDictFlow_init (example_args (example_feed 10) 4 False))
   \<and> batches (example_flow 10 4 False) = [[0, 1, 2, 3], [4, 5, 6, 7], [8, 9]]
   \<and> fst (fill_batch_ids_queue 10 (snd (start True (example_flow 10 4 False))))
       = Some (Raised AssertionError)
   \<and> batch_ids_queue (snd (fill_batch_ids_queue 10 (snd (start True (example_flow 10 4 False)))))
       = [Some [0, 1, 2, 3], Some [4, 5, 6, 7]]
   \<and> waiters (snd (fill_batch_ids_queue 10 (snd (start True (example_flow 10 4 False))))) = 0
   \<and> feed_dict_queue (pipeline_run 10 4 False 10)
       = [FeedDict [(''X'', NDArray [] [[0], [10], [20], [30]]),
                    (''Y'', NDArray [2] [[0, 1], [1, 0], [0, 1], [1, 0]])],
          FeedDict [(''X'', NDArray [] [[40], [50], [60], [70]]),
                    (''Y'', NDArray [2] [[0, 1], [1, 0], [0, 1], [1, 0]])]]
   \<and> batch_ids_queue (pipeline_run 10 4 False 10) = []
   \<and> waiters (pipeline_run 10 4 False 10) = 0
   \<and> running (pipeline_run 10 4 False 10) = 8
   \<and> fst (flow_next None (snd (flow_next None (snd (flow_next None (pipeline_run 10 4 False 10))))))
       = Blocked
   \<and> fst (flow_next (Some 1)
             (snd (flow_next None (snd (flow_next None (pipeline_run 10 4 False 10))))))
       = Raised QueueEmpty"
  by code_simp






end
